theory Spec2Isabelle
  imports Main "HOL-Library.Word"
begin

unbundle bit_operations_syntax

section \<open>The multipath path prober (\<open>probe.c\<close>)\<close>

text \<open>
  The program is a single C \<open>main\<close>: it checks its argument count, opens the device
  node read-only, prints \<open>probing\<close>, repeats one \<open>ioctl\<close> until it stops failing with a
  retryable \<open>errno\<close>, closes the descriptor and returns 0. Every failure path calls
  \<open>exit(1)\<close> on the spot.

  The model is a function of the command line and of the answers of the operating system.
  The process state holds \<open>errno\<close>, the bytes written to the two output streams and the
  system calls issued so far, in order.
\<close>

subsection \<open>Constants of the system headers\<close>

text \<open>
  \<open>_IOC\<close>, \<open>_IO\<close> (\<open>linux/ioctl.h\<close>) and \<open>DM_IOCTL\<close> (\<open>linux/dm-ioctl.h\<close>) come from the
  kernel's headers, as do \<open>O_RDONLY\<close> and the \<open>errno\<close> numbers (the values of
  \<open>asm-generic\<close>). The two \<open>#define\<close>s of \<open>probe.c\<close> follow.
\<close>

definition IOC :: "32 word \<Rightarrow> 32 word \<Rightarrow> 32 word \<Rightarrow> 32 word \<Rightarrow> 32 word" where
  "IOC dir ty nr sz = push_bit 30 dir OR push_bit 8 ty OR push_bit 0 nr OR push_bit 16 sz"

definition IOC_NONE :: "32 word" where
  "IOC_NONE = 0"

definition IO :: "32 word \<Rightarrow> 32 word \<Rightarrow> 32 word" where
  "IO ty nr = IOC IOC_NONE ty nr 0"

definition DM_IOCTL :: "32 word" where
  "DM_IOCTL = 0xfd"

definition DM_MPATH_PROBE_PATHS_CMD :: "32 word" where
  "DM_MPATH_PROBE_PATHS_CMD = 18"

definition DM_MPATH_PROBE_PATHS :: "32 word" where
  "DM_MPATH_PROBE_PATHS = IO DM_IOCTL DM_MPATH_PROBE_PATHS_CMD"

definition O_RDONLY :: int where
  "O_RDONLY = 0"

definition EINTR :: int where
  "EINTR = 4"

definition EAGAIN :: int where
  "EAGAIN = 11"

definition ENOTCONN :: int where
  "ENOTCONN = 107"

subsection \<open>The process and the operating system\<close>

datatype syscall =
    Open string int
  | Ioctl int "32 word"
  | Close int

text \<open>
  What a system call hands back: its return value and, when that is negative, the value
  it leaves in \<open>errno\<close>.
\<close>

record sysret =
  rv :: int
  er :: int

text \<open>
  The answers of the outside world: \<open>open\<close> by path and flags, the \<open>k\<close>-th \<open>ioctl\<close> on the
  descriptor (counted from 0), \<open>close\<close>, and the C library's error text for an \<open>errno\<close>
  value (what \<open>%m\<close> and \<open>perror\<close> print).
\<close>

record os_env =
  open_ret :: "string \<Rightarrow> int \<Rightarrow> sysret"
  ioctl_ret :: "nat \<Rightarrow> sysret"
  close_ret :: sysret
  strerror :: "int \<Rightarrow> string"

record proc =
  errno :: int
  stdout :: string
  stderr :: string
  calls :: "syscall list"

definition proc_start :: proc where
  "proc_start = \<lparr>errno = 0, stdout = [], stderr = [], calls = []\<rparr>"

definition newline :: string where
  "newline = [CHR 0x0A]"

text \<open>A system call is recorded, and a negative return value comes with its \<open>errno\<close>.\<close>

definition syscall_done :: "syscall \<Rightarrow> sysret \<Rightarrow> proc \<Rightarrow> proc" where
  "syscall_done c r s =
     (if rv r < 0 then s\<lparr>errno := er r, calls := calls s @ [c]\<rparr>
      else s\<lparr>calls := calls s @ [c]\<rparr>)"

definition printf :: "string \<Rightarrow> proc \<Rightarrow> proc" where
  "printf str s = s\<lparr>stdout := stdout s @ str\<rparr>"

definition fprintf_stderr :: "string \<Rightarrow> proc \<Rightarrow> proc" where
  "fprintf_stderr str s = s\<lparr>stderr := stderr s @ str\<rparr>"

text \<open>\<open>perror(msg)\<close> writes \<open>msg\<close>, a colon and a blank, the text of \<open>errno\<close>, a newline.\<close>

definition perror :: "os_env \<Rightarrow> string \<Rightarrow> proc \<Rightarrow> proc" where
  "perror os msg s = fprintf_stderr (msg @ '': '' @ strerror os (errno s) @ newline) s"

text \<open>
  \<open>argv\<close> holds \<open>argc\<close> strings and then a null pointer, so \<open>argv[0]\<close> of an empty
  command line is \<open>NULL\<close>; glibc prints \<open>(null)\<close> for a null \<open>%s\<close> argument.
\<close>

definition argv_at :: "string list \<Rightarrow> nat \<Rightarrow> string option" where
  "argv_at argv i = (if i < length argv then Some (argv ! i) else None)"

definition fmt_s :: "string option \<Rightarrow> string" where
  "fmt_s p = (case p of None \<Rightarrow> ''(null)'' | Some str \<Rightarrow> str)"

subsection \<open>The program\<close>

text \<open>How a piece of \<open>main\<close> ends: with a call of \<open>exit\<close>, or by running on.\<close>

datatype flow = Exit int | Go

text \<open>
  The \<open>while\<close> loop of \<open>main\<close>; \<open>k\<close> counts the requests already answered. The loop has
  no bound, so it is a partial function: \<open>None\<close> is the loop that never ends.
\<close>

partial_function (option) probe_loop :: "os_env \<Rightarrow> int \<Rightarrow> nat \<Rightarrow> proc \<Rightarrow> (flow \<times> proc) option" where
  "probe_loop os fd k s =
     (let r = ioctl_ret os k;
          s1 = syscall_done (Ioctl fd DM_MPATH_PROBE_PATHS) r s
      in if rv r < 0 then
           if errno s1 = ENOTCONN then
             Some (Exit 1, printf (''no usable paths'' @ newline) s1)
           else if errno s1 \<noteq> EINTR \<and> errno s1 \<noteq> EAGAIN then
             Some (Exit 1, perror os ''ioctl failed'' s1)
           else probe_loop os fd (k + 1) s1
         else Some (Go, s1))"

declare probe_loop.simps [code]

text \<open>
  \<open>main\<close>: the exit status and the final state of the process, or \<open>None\<close> when the
  process never ends.
\<close>

definition main :: "os_env \<Rightarrow> string list \<Rightarrow> (int \<times> proc) option" where
  "main os argv =
     (if length argv \<noteq> 2 then
        Some (1, fprintf_stderr
                   (''Usage: '' @ fmt_s (argv_at argv 0) @ '' <dm-path>'' @ newline) proc_start)
      else
        let r = open_ret os (argv ! 1) O_RDONLY;
            s1 = syscall_done (Open (argv ! 1) O_RDONLY) r proc_start;
            fd = rv r
        in if fd < 0 then
             Some (1, fprintf_stderr
                        (''open of '' @ argv ! 1 @ '' failed: '' @ strerror os (errno s1) @ newline) s1)
           else
             case probe_loop os fd 0 (printf (''probing'' @ newline) s1) of
               None \<Rightarrow> None
             | Some (Exit c, s3) \<Rightarrow> Some (c, s3)
             | Some (Go, s3) \<Rightarrow> Some (0, syscall_done (Close fd) (close_ret os) s3))"

subsection \<open>Vocabulary of the properties\<close>

text \<open>
  A request result is transient when the request failed with \<open>EINTR\<close> or \<open>EAGAIN\<close>, a
  no-usable-path result when it failed with \<open>ENOTCONN\<close>, an operational error when it
  failed with any other \<open>errno\<close>.
\<close>

definition transient :: "sysret \<Rightarrow> bool" where
  "transient r = (rv r < 0 \<and> (er r = EINTR \<or> er r = EAGAIN))"

definition not_connected :: "sysret \<Rightarrow> bool" where
  "not_connected r = (rv r < 0 \<and> er r = ENOTCONN)"

definition other_failure :: "sysret \<Rightarrow> bool" where
  "other_failure r = (rv r < 0 \<and> er r \<noteq> ENOTCONN \<and> er r \<noteq> EINTR \<and> er r \<noteq> EAGAIN)"

fun is_ioctl :: "syscall \<Rightarrow> bool" where
  "is_ioctl (Ioctl fd cmd) = True"
| "is_ioctl c = False"

fun is_close :: "syscall \<Rightarrow> bool" where
  "is_close (Close fd) = True"
| "is_close c = False"

fun is_open :: "syscall \<Rightarrow> bool" where
  "is_open (Open path flags) = True"
| "is_open c = False"

text \<open>The three lines the program can write to its standard output and error streams.\<close>

definition probing_line :: string where
  "probing_line = ''probing'' @ newline"

definition no_paths_line :: string where
  "no_paths_line = ''no usable paths'' @ newline"

definition usage_line :: "string \<Rightarrow> string" where
  "usage_line prog = ''Usage: '' @ prog @ '' <dm-path>'' @ newline"

definition open_failed_line :: "string \<Rightarrow> string \<Rightarrow> string" where
  "open_failed_line path txt = ''open of '' @ path @ '' failed: '' @ txt @ newline"

definition ioctl_failed_line :: "string \<Rightarrow> string" where
  "ioctl_failed_line txt = ''ioctl failed: '' @ txt @ newline"

subsection \<open>Concrete machines\<close>

text \<open>
  Command lines and operating systems on which the theorems below are instantiated.
  \<open>open\<close> hands out descriptor 3; the error texts are those of glibc.
\<close>

definition argv_dm :: "string list" where
  "argv_dm = [''probe'', ''/dev/dm-0'']"

definition strerror_glibc :: "int \<Rightarrow> string" where
  "strerror_glibc e =
     (if e = 2 then ''No such file or directory''
      else if e = 5 then ''Input/output error''
      else if e = 13 then ''Permission denied''
      else ''Unknown error'')"

text \<open>The device has no usable path: every request fails with \<open>ENOTCONN\<close>.\<close>

definition os_notconn :: os_env where
  "os_notconn =
     \<lparr>open_ret = (\<lambda>path flags. \<lparr>rv = 3, er = 0\<rparr>),
      ioctl_ret = (\<lambda>k. \<lparr>rv = - 1, er = ENOTCONN\<rparr>),
      close_ret = \<lparr>rv = 0, er = 0\<rparr>,
      strerror = strerror_glibc\<rparr>"

text \<open>Interrupted once, told to try again once, then a successful probe.\<close>

definition os_retry :: os_env where
  "os_retry =
     \<lparr>open_ret = (\<lambda>path flags. \<lparr>rv = 3, er = 0\<rparr>),
      ioctl_ret = (\<lambda>k. if k = 0 then \<lparr>rv = - 1, er = EINTR\<rparr>
                       else if k = 1 then \<lparr>rv = - 1, er = EAGAIN\<rparr>
                       else \<lparr>rv = 0, er = 0\<rparr>),
      close_ret = \<lparr>rv = 0, er = 0\<rparr>,
      strerror = strerror_glibc\<rparr>"

text \<open>A device that answers every request with \<open>EAGAIN\<close>.\<close>

definition os_busy :: os_env where
  "os_busy =
     \<lparr>open_ret = (\<lambda>path flags. \<lparr>rv = 3, er = 0\<rparr>),
      ioctl_ret = (\<lambda>k. \<lparr>rv = - 1, er = EAGAIN\<rparr>),
      close_ret = \<lparr>rv = 0, er = 0\<rparr>,
      strerror = strerror_glibc\<rparr>"

text \<open>The request is refused with \<open>EACCES\<close> (13).\<close>

definition os_eacces :: os_env where
  "os_eacces =
     \<lparr>open_ret = (\<lambda>path flags. \<lparr>rv = 3, er = 0\<rparr>),
      ioctl_ret = (\<lambda>k. \<lparr>rv = - 1, er = 13\<rparr>),
      close_ret = \<lparr>rv = 0, er = 0\<rparr>,
      strerror = strerror_glibc\<rparr>"

text \<open>The device node does not exist: \<open>open\<close> fails with \<open>ENOENT\<close> (2).\<close>

definition os_enoent :: os_env where
  "os_enoent =
     \<lparr>open_ret = (\<lambda>path flags. \<lparr>rv = - 1, er = 2\<rparr>),
      ioctl_ret = (\<lambda>k. \<lparr>rv = 0, er = 0\<rparr>),
      close_ret = \<lparr>rv = 0, er = 0\<rparr>,
      strerror = strerror_glibc\<rparr>"

text \<open>
  Two usable devices: on the first every request returns 0; on the second \<open>open\<close> hands
  out descriptor 4, every request returns 7 and \<open>close\<close> fails with \<open>EIO\<close> (5).
\<close>

definition os_usable :: os_env where
  "os_usable =
     \<lparr>open_ret = (\<lambda>path flags. \<lparr>rv = 3, er = 0\<rparr>),
      ioctl_ret = (\<lambda>k. \<lparr>rv = 0, er = 0\<rparr>),
      close_ret = \<lparr>rv = 0, er = 0\<rparr>,
      strerror = strerror_glibc\<rparr>"

definition os_usable_alt :: os_env where
  "os_usable_alt =
     \<lparr>open_ret = (\<lambda>path flags. \<lparr>rv = 4, er = 0\<rparr>),
      ioctl_ret = (\<lambda>k. \<lparr>rv = 7, er = 0\<rparr>),
      close_ret = \<lparr>rv = - 1, er = 5\<rparr>,
      strerror = strerror_glibc\<rparr>"

text \<open>The final state of the process on \<open>os_notconn\<close>.\<close>

definition notconn_final :: proc where
  "notconn_final =
     \<lparr>errno = ENOTCONN,
      stdout = probing_line @ no_paths_line,
      stderr = [],
      calls = [Open ''/dev/dm-0'' O_RDONLY, Ioctl 3 DM_MPATH_PROBE_PATHS]\<rparr>"

section \<open>The loop\<close>

lemma probe_loop_retry:
  "transient (ioctl_ret os k) \<Longrightarrow>
   probe_loop os fd k s =
     probe_loop os fd (Suc k) (syscall_done (Ioctl fd DM_MPATH_PROBE_PATHS) (ioctl_ret os k) s)"
  by (subst probe_loop.simps)
     (auto simp: transient_def syscall_done_def Let_def EINTR_def EAGAIN_def ENOTCONN_def)

lemma probe_loop_success:
  "0 \<le> rv (ioctl_ret os k) \<Longrightarrow>
   probe_loop os fd k s =
     Some (Go, syscall_done (Ioctl fd DM_MPATH_PROBE_PATHS) (ioctl_ret os k) s)"
  by (subst probe_loop.simps) (simp add: Let_def)

lemma probe_loop_notconn:
  "not_connected (ioctl_ret os k) \<Longrightarrow>
   probe_loop os fd k s =
     Some (Exit 1, printf (''no usable paths'' @ newline)
                     (syscall_done (Ioctl fd DM_MPATH_PROBE_PATHS) (ioctl_ret os k) s))"
  by (subst probe_loop.simps) (simp add: Let_def not_connected_def syscall_done_def)

lemma probe_loop_other:
  "other_failure (ioctl_ret os k) \<Longrightarrow>
   probe_loop os fd k s =
     Some (Exit 1, perror os ''ioctl failed''
                     (syscall_done (Ioctl fd DM_MPATH_PROBE_PATHS) (ioctl_ret os k) s))"
  by (subst probe_loop.simps) (simp add: Let_def other_failure_def syscall_done_def)

lemma result_cases:
  "transient r \<or> 0 \<le> rv r \<or> not_connected r \<or> other_failure r"
  by (auto simp: transient_def not_connected_def other_failure_def)

lemma transient_exclusive:
  "transient r \<Longrightarrow> \<not> 0 \<le> rv r \<and> \<not> not_connected r \<and> \<not> other_failure r"
  by (auto simp: transient_def not_connected_def other_failure_def EINTR_def EAGAIN_def ENOTCONN_def)

lemma syscall_done_obs [simp]:
  "stdout (syscall_done c r s) = stdout s"
  "stderr (syscall_done c r s) = stderr s"
  "calls (syscall_done c r s) = calls s @ [c]"
  "rv r < 0 \<Longrightarrow> errno (syscall_done c r s) = er r"
  by (simp_all add: syscall_done_def)

lemma printf_obs [simp]:
  "stdout (printf str s) = stdout s @ str"
  "stderr (printf str s) = stderr s"
  "calls (printf str s) = calls s"
  "errno (printf str s) = errno s"
  by (simp_all add: printf_def)

lemma fprintf_stderr_obs [simp]:
  "stdout (fprintf_stderr str s) = stdout s"
  "stderr (fprintf_stderr str s) = stderr s @ str"
  "calls (fprintf_stderr str s) = calls s"
  by (simp_all add: fprintf_stderr_def)

lemma probe_loop_skip:
  "(\<forall>i<n. transient (ioctl_ret os (k + i))) \<Longrightarrow>
   \<exists>s'. probe_loop os fd k s = probe_loop os fd (k + n) s' \<and>
        stdout s' = stdout s \<and> stderr s' = stderr s \<and>
        calls s' = calls s @ replicate n (Ioctl fd DM_MPATH_PROBE_PATHS)"
proof (induction n)
  case 0
  show ?case by (intro exI [of _ s]) simp
next
  case (Suc n)
  then obtain s' where s': "probe_loop os fd k s = probe_loop os fd (k + n) s'"
      "stdout s' = stdout s" "stderr s' = stderr s"
      "calls s' = calls s @ replicate n (Ioctl fd DM_MPATH_PROBE_PATHS)"
    by auto
  from Suc.prems have "transient (ioctl_ret os (k + n))" by simp
  from probe_loop_retry [OF this, of fd s'] s' show ?case
    by (intro exI [of _ "syscall_done (Ioctl fd DM_MPATH_PROBE_PATHS) (ioctl_ret os (k + n)) s'"])
       (simp add: replicate_append_same)
qed

lemma probe_loop_ends:
  assumes "probe_loop os fd k s = Some y"
  shows "\<exists>i\<ge>k. \<not> transient (ioctl_ret os i)"
proof (rule probe_loop.raw_induct [OF _ assms])
  fix pl and os :: os_env and fd :: int and k :: nat and s :: proc and y :: "flow \<times> proc"
  let ?s1 = "syscall_done (Ioctl fd DM_MPATH_PROBE_PATHS) (ioctl_ret os k) s"
  assume IH: "\<And>(os :: os_env) fd k s y.
                pl os fd k s = Some y \<Longrightarrow> \<exists>i\<ge>k. \<not> transient (ioctl_ret os i)"
    and body: "(let r = ioctl_ret os k;
                   s1 = syscall_done (Ioctl fd DM_MPATH_PROBE_PATHS) r s
               in if rv r < 0 then
                    if errno s1 = ENOTCONN then
                      Some (Exit 1, printf (''no usable paths'' @ newline) s1)
                    else if errno s1 \<noteq> EINTR \<and> errno s1 \<noteq> EAGAIN then
                      Some (Exit 1, perror os ''ioctl failed'' s1)
                    else pl os fd (k + 1) s1
                  else Some (Go, s1)) = Some y"
  show "\<exists>i\<ge>k. \<not> transient (ioctl_ret os i)"
  proof (cases "transient (ioctl_ret os k)")
    case True
    with body have "pl os fd (k + 1) ?s1 = Some y"
      by (auto simp: Let_def transient_def syscall_done_def EINTR_def EAGAIN_def ENOTCONN_def
               split: if_splits)
    from IH [OF this] obtain i where "k + 1 \<le> i" "\<not> transient (ioctl_ret os i)"
      by blast
    then have "k \<le> i \<and> \<not> transient (ioctl_ret os i)" by simp
    then show ?thesis by blast
  next
    case False
    then show ?thesis by blast
  qed
qed

lemma probe_loop_diverges:
  "(\<forall>i. transient (ioctl_ret os i)) \<Longrightarrow> probe_loop os fd k s = None"
  using probe_loop_ends [of os fd k s] by (cases "probe_loop os fd k s") auto

section \<open>Runs of \<open>main\<close>\<close>

lemma main_opened:
  assumes "length argv = 2"
    and "0 \<le> rv (open_ret os (argv ! 1) O_RDONLY)"
    and "\<forall>i<n. transient (ioctl_ret os i)"
  shows "\<exists>s'. stdout s' = probing_line \<and> stderr s' = [] \<and>
              calls s' = Open (argv ! 1) O_RDONLY #
                         replicate n (Ioctl (rv (open_ret os (argv ! 1) O_RDONLY)) DM_MPATH_PROBE_PATHS) \<and>
              main os argv =
                (case probe_loop os (rv (open_ret os (argv ! 1) O_RDONLY)) n s' of
                   None \<Rightarrow> None
                 | Some (Exit c, s3) \<Rightarrow> Some (c, s3)
                 | Some (Go, s3) \<Rightarrow>
                     Some (0, syscall_done (Close (rv (open_ret os (argv ! 1) O_RDONLY)))
                                (close_ret os) s3))"
proof -
  let ?r = "open_ret os (argv ! 1) O_RDONLY"
  let ?s2 = "printf (''probing'' @ newline) (syscall_done (Open (argv ! 1) O_RDONLY) ?r proc_start)"
  from assms(3) have "\<forall>i<n. transient (ioctl_ret os (0 + i))" by simp
  from probe_loop_skip [OF this, of "rv ?r" ?s2]
  obtain s' where s': "probe_loop os (rv ?r) 0 ?s2 = probe_loop os (rv ?r) n s'"
    "stdout s' = stdout ?s2" "stderr s' = stderr ?s2"
    "calls s' = calls ?s2 @ replicate n (Ioctl (rv ?r) DM_MPATH_PROBE_PATHS)"
    by auto
  have "main os argv =
          (case probe_loop os (rv ?r) 0 ?s2 of
             None \<Rightarrow> None
           | Some (Exit c, s3) \<Rightarrow> Some (c, s3)
           | Some (Go, s3) \<Rightarrow> Some (0, syscall_done (Close (rv ?r)) (close_ret os) s3))"
    using assms(1,2) by (simp add: main_def Let_def del: One_nat_def)
  with s' show ?thesis
    by (intro exI [of _ s']) (simp add: probing_line_def proc_start_def)
qed

lemma main_success:
  assumes "length argv = 2"
    and "0 \<le> rv (open_ret os (argv ! 1) O_RDONLY)"
    and "\<forall>i<n. transient (ioctl_ret os i)"
    and "0 \<le> rv (ioctl_ret os n)"
  shows "\<exists>s. main os argv = Some (0, s) \<and> stdout s = probing_line \<and> stderr s = [] \<and>
             calls s = Open (argv ! 1) O_RDONLY #
                       replicate (Suc n) (Ioctl (rv (open_ret os (argv ! 1) O_RDONLY)) DM_MPATH_PROBE_PATHS) @
                       [Close (rv (open_ret os (argv ! 1) O_RDONLY))]"
proof -
  from main_opened [OF assms(1-3)] obtain s' where s':
    "stdout s' = probing_line" "stderr s' = []"
    "calls s' = Open (argv ! 1) O_RDONLY #
                replicate n (Ioctl (rv (open_ret os (argv ! 1) O_RDONLY)) DM_MPATH_PROBE_PATHS)"
    "main os argv =
       (case probe_loop os (rv (open_ret os (argv ! 1) O_RDONLY)) n s' of
          None \<Rightarrow> None
        | Some (Exit c, s3) \<Rightarrow> Some (c, s3)
        | Some (Go, s3) \<Rightarrow>
            Some (0, syscall_done (Close (rv (open_ret os (argv ! 1) O_RDONLY))) (close_ret os) s3))"
    by blast
  show ?thesis
    using s' by (simp add: probe_loop_success [OF assms(4)] replicate_append_same)
qed

lemma main_notconn:
  assumes "length argv = 2"
    and "0 \<le> rv (open_ret os (argv ! 1) O_RDONLY)"
    and "\<forall>i<n. transient (ioctl_ret os i)"
    and "not_connected (ioctl_ret os n)"
  shows "\<exists>s. main os argv = Some (1, s) \<and> stdout s = probing_line @ no_paths_line \<and>
             stderr s = [] \<and>
             calls s = Open (argv ! 1) O_RDONLY #
                       replicate (Suc n) (Ioctl (rv (open_ret os (argv ! 1) O_RDONLY)) DM_MPATH_PROBE_PATHS)"
proof -
  from main_opened [OF assms(1-3)] obtain s' where s':
    "stdout s' = probing_line" "stderr s' = []"
    "calls s' = Open (argv ! 1) O_RDONLY #
                replicate n (Ioctl (rv (open_ret os (argv ! 1) O_RDONLY)) DM_MPATH_PROBE_PATHS)"
    "main os argv =
       (case probe_loop os (rv (open_ret os (argv ! 1) O_RDONLY)) n s' of
          None \<Rightarrow> None
        | Some (Exit c, s3) \<Rightarrow> Some (c, s3)
        | Some (Go, s3) \<Rightarrow>
            Some (0, syscall_done (Close (rv (open_ret os (argv ! 1) O_RDONLY))) (close_ret os) s3))"
    by blast
  show ?thesis
    using s' by (simp add: probe_loop_notconn [OF assms(4)] replicate_append_same no_paths_line_def)
qed

lemma main_other:
  assumes "length argv = 2"
    and "0 \<le> rv (open_ret os (argv ! 1) O_RDONLY)"
    and "\<forall>i<n. transient (ioctl_ret os i)"
    and "other_failure (ioctl_ret os n)"
  shows "\<exists>s. main os argv = Some (1, s) \<and> stdout s = probing_line \<and>
             stderr s = ioctl_failed_line (strerror os (er (ioctl_ret os n))) \<and>
             calls s = Open (argv ! 1) O_RDONLY #
                       replicate (Suc n) (Ioctl (rv (open_ret os (argv ! 1) O_RDONLY)) DM_MPATH_PROBE_PATHS)"
proof -
  from main_opened [OF assms(1-3)] obtain s' where s':
    "stdout s' = probing_line" "stderr s' = []"
    "calls s' = Open (argv ! 1) O_RDONLY #
                replicate n (Ioctl (rv (open_ret os (argv ! 1) O_RDONLY)) DM_MPATH_PROBE_PATHS)"
    "main os argv =
       (case probe_loop os (rv (open_ret os (argv ! 1) O_RDONLY)) n s' of
          None \<Rightarrow> None
        | Some (Exit c, s3) \<Rightarrow> Some (c, s3)
        | Some (Go, s3) \<Rightarrow>
            Some (0, syscall_done (Close (rv (open_ret os (argv ! 1) O_RDONLY))) (close_ret os) s3))"
    by blast
  from assms(4) have "rv (ioctl_ret os n) < 0" by (simp add: other_failure_def)
  then show ?thesis
    using s' by (simp add: probe_loop_other [OF assms(4)] replicate_append_same perror_def
                           ioctl_failed_line_def)
qed

lemma main_never:
  assumes "length argv = 2"
    and "0 \<le> rv (open_ret os (argv ! 1) O_RDONLY)"
    and "\<forall>i. transient (ioctl_ret os i)"
  shows "main os argv = None"
  using assms(1,2) by (simp add: main_def Let_def probe_loop_diverges [OF assms(3)])

lemma main_usage:
  assumes "length argv \<noteq> 2"
  shows "main os argv = Some (1, fprintf_stderr (usage_line (fmt_s (argv_at argv 0))) proc_start)"
  using assms by (simp add: main_def usage_line_def)

lemma main_open_failed:
  assumes "length argv = 2"
    and "rv (open_ret os (argv ! 1) O_RDONLY) < 0"
  shows "main os argv =
           Some (1, fprintf_stderr
                      (open_failed_line (argv ! 1) (strerror os (er (open_ret os (argv ! 1) O_RDONLY))))
                      (syscall_done (Open (argv ! 1) O_RDONLY) (open_ret os (argv ! 1) O_RDONLY) proc_start))"
  using assms by (simp add: main_def Let_def open_failed_line_def)

lemma no_close_in_requests:
  "\<not> list_ex is_close (Open path flags # replicate n (Ioctl fd cmd))"
  by (simp add: list_ex_iff)

lemma requests_only:
  "filter is_ioctl (Open path flags # replicate n (Ioctl fd cmd)) = replicate n (Ioctl fd cmd)"
  "filter is_ioctl (Open path flags # replicate n (Ioctl fd cmd) @ [Close fd']) = replicate n (Ioctl fd cmd)"
  by simp_all

section \<open>The claims\<close>

text \<open>Facts about the concrete machines, for instantiating the theorems.\<close>

lemma concrete_results [simp]:
  "transient (ioctl_ret os_retry 0)" "transient (ioctl_ret os_retry (Suc 0))"
  "\<not> transient (ioctl_ret os_retry 2)" "rv (ioctl_ret os_retry 2) = 0"
  "not_connected (ioctl_ret os_notconn k)"
  "transient (ioctl_ret os_busy k)"
  "other_failure (ioctl_ret os_eacces k)"
  "er (ioctl_ret os_eacces k) = 13"
  "rv (ioctl_ret os_usable k) = 0"
  "rv (ioctl_ret os_usable_alt k) = 7"
  by (simp_all add: os_retry_def os_notconn_def os_busy_def os_eacces_def os_usable_def
        os_usable_alt_def transient_def not_connected_def other_failure_def EINTR_def EAGAIN_def ENOTCONN_def)

lemma concrete_open [simp]:
  "length argv_dm = 2" "argv_dm ! 1 = ''/dev/dm-0''" "argv_dm ! Suc 0 = ''/dev/dm-0''"
  "rv (open_ret os_retry path flags) = 3"
  "rv (open_ret os_notconn path flags) = 3"
  "rv (open_ret os_busy path flags) = 3"
  "rv (open_ret os_eacces path flags) = 3"
  "rv (open_ret os_usable path flags) = 3"
  "rv (open_ret os_usable_alt path flags) = 4"
  "rv (open_ret os_enoent path flags) = - 1"
  "er (open_ret os_enoent path flags) = 2"
  by (simp_all add: argv_dm_def os_retry_def os_notconn_def os_busy_def os_eacces_def
        os_usable_def os_usable_alt_def os_enoent_def)

lemma concrete_strerror [simp]:
  "strerror os_eacces = strerror_glibc"
  "strerror os_enoent = strerror_glibc"
  by (simp_all add: os_eacces_def os_enoent_def)

lemma below_two: "(\<forall>i<2. P i) = (P 0 \<and> P (Suc 0))"
  by (auto simp: less_Suc_eq numeral_2_eq_2)

text \<open>
  C1, as stated: when the probe request returns the not-connected status, the program
  calls \<open>close\<close> on the device handle before terminating. The code does not: on
  \<open>os_notconn\<close> the process ends in \<open>exit(1)\<close> inside the loop, after \<open>open\<close> and one
  \<open>ioctl\<close>, and no \<open>close\<close> was issued.
\<close>

theorem C1_counterexample:
  "main os_notconn argv_dm = Some (1, notconn_final) \<and> \<not> list_ex is_close (calls notconn_final)"
proof -
  have "probe_loop os_notconn 3 0 s =
          Some (Exit 1, printf (''no usable paths'' @ newline)
                          (syscall_done (Ioctl 3 DM_MPATH_PROBE_PATHS) (ioctl_ret os_notconn 0) s))"
    for s
    by (rule probe_loop_notconn) simp
  then have "main os_notconn argv_dm = Some (1, notconn_final)"
    by (simp add: main_def Let_def notconn_final_def os_notconn_def argv_dm_def syscall_done_def
          printf_def proc_start_def probing_line_def no_paths_line_def O_RDONLY_def)
  then show ?thesis by (simp add: notconn_final_def)
qed

text \<open>
  C1, amended: when the first result that is not transient is the not-connected status,
  the program prints \<open>probing\<close> and \<open>no usable paths\<close> and exits with status 1 having
  issued \<open>open\<close> and the probe requests only; it never calls \<open>close\<close> (the descriptor is
  left to the operating system at process exit). Once the device is opened, the process
  calls \<open>close\<close> exactly when the first result that is not transient is a success.
\<close>

theorem notconn_exits_without_close:
  assumes "length argv = 2"
    and "0 \<le> rv (open_ret os (argv ! 1) O_RDONLY)"
    and "\<forall>i<n. transient (ioctl_ret os i)"
    and "\<not> transient (ioctl_ret os n)"
  shows "\<exists>c s. main os argv = Some (c, s) \<and>
               list_ex is_close (calls s) = (0 \<le> rv (ioctl_ret os n)) \<and>
               (not_connected (ioctl_ret os n) \<longrightarrow>
                  c = 1 \<and> stdout s = probing_line @ no_paths_line \<and> stderr s = [] \<and>
                  calls s = Open (argv ! 1) O_RDONLY #
                            replicate (Suc n)
                              (Ioctl (rv (open_ret os (argv ! 1) O_RDONLY)) DM_MPATH_PROBE_PATHS) \<and>
                  \<not> list_ex is_close (calls s))"
proof -
  let ?fd = "rv (open_ret os (argv ! 1) O_RDONLY)"
  let ?req = "Ioctl ?fd DM_MPATH_PROBE_PATHS"
  note before = assms(1-3)
  consider (ok) "0 \<le> rv (ioctl_ret os n)" | (nc) "not_connected (ioctl_ret os n)"
    | (other) "other_failure (ioctl_ret os n)"
    using result_cases [of "ioctl_ret os n"] assms(4) by blast
  then show ?thesis
  proof cases
    case ok
    from main_success [OF before ok] obtain s where s: "main os argv = Some (0, s)"
      "calls s = Open (argv ! 1) O_RDONLY # replicate (Suc n) ?req @ [Close ?fd]"
      by blast
    from s(2) have "list_ex is_close (calls s)" by (simp add: list_ex_iff)
    moreover from ok have "\<not> not_connected (ioctl_ret os n)" by (simp add: not_connected_def)
    ultimately show ?thesis using s(1) ok by (intro exI [of _ 0] exI [of _ s]) simp
  next
    case nc
    from main_notconn [OF before nc] obtain s where s: "main os argv = Some (1, s)"
      "stdout s = probing_line @ no_paths_line" "stderr s = []"
      "calls s = Open (argv ! 1) O_RDONLY # replicate (Suc n) ?req"
      by blast
    from s(4) have "\<not> list_ex is_close (calls s)"
      using no_close_in_requests [of "argv ! 1" O_RDONLY "Suc n"] by simp
    moreover from nc have "\<not> 0 \<le> rv (ioctl_ret os n)" by (simp add: not_connected_def)
    ultimately show ?thesis using s by (intro exI [of _ 1] exI [of _ s]) simp
  next
    case other
    from main_other [OF before other] obtain s where s: "main os argv = Some (1, s)"
      "calls s = Open (argv ! 1) O_RDONLY # replicate (Suc n) ?req"
      by blast
    from s(2) have "\<not> list_ex is_close (calls s)"
      using no_close_in_requests [of "argv ! 1" O_RDONLY "Suc n"] by simp
    moreover from other have "\<not> 0 \<le> rv (ioctl_ret os n)" "\<not> not_connected (ioctl_ret os n)"
      by (simp_all add: other_failure_def not_connected_def)
    ultimately show ?thesis using s(1) by (intro exI [of _ 1] exI [of _ s]) simp
  qed
qed

theorem notconn_exits_without_close_witness:
  "length argv_dm = 2 \<and> 0 \<le> rv (open_ret os_notconn (argv_dm ! 1) O_RDONLY) \<and>
   \<not> transient (ioctl_ret os_notconn 0) \<and> not_connected (ioctl_ret os_notconn 0) \<and>
   (\<exists>s. main os_notconn argv_dm = Some (1, s) \<and>
        stdout s = probing_line @ no_paths_line \<and>
        calls s = [Open ''/dev/dm-0'' O_RDONLY, Ioctl 3 DM_MPATH_PROBE_PATHS] \<and>
        \<not> list_ex is_close (calls s)) \<and>
   0 \<le> rv (open_ret os_usable (argv_dm ! 1) O_RDONLY) \<and>
   \<not> transient (ioctl_ret os_usable 0) \<and>
   (\<exists>c s. main os_usable argv_dm = Some (c, s) \<and> list_ex is_close (calls s))"
proof -
  have nt: "\<not> transient (ioctl_ret os_notconn 0)" "\<not> transient (ioctl_ret os_usable 0)"
    by (simp_all add: transient_def os_notconn_def os_usable_def ENOTCONN_def EINTR_def EAGAIN_def)
  from notconn_exits_without_close [of argv_dm os_notconn 0] nt(1)
  have "\<exists>s. main os_notconn argv_dm = Some (1, s) \<and>
        stdout s = probing_line @ no_paths_line \<and>
        calls s = [Open ''/dev/dm-0'' O_RDONLY, Ioctl 3 DM_MPATH_PROBE_PATHS] \<and>
        \<not> list_ex is_close (calls s)"
    by auto
  moreover from notconn_exits_without_close [of argv_dm os_usable 0] nt(2)
  have "\<exists>c s. main os_usable argv_dm = Some (c, s) \<and> list_ex is_close (calls s)"
    by auto
  ultimately show ?thesis using nt by simp
qed

text \<open>
  C2: for every sequence of probe-request results, the loop issues the request again
  exactly when the request failed with the interrupted or the try-again status, and the
  process never terminates from such a result. The process runs forever exactly when every
  result is transient; a process that ends has issued one request more than it received
  transient results, all of them before a last result that is not transient: a success
  (exit status 0), the not-connected status or another failure.
\<close>

theorem retry_exactly_on_transient:
  assumes "length argv = 2"
    and "0 \<le> rv (open_ret os (argv ! 1) O_RDONLY)"
  shows "(main os argv = None) = (\<forall>i. transient (ioctl_ret os i)) \<and>
         (\<forall>c s. main os argv = Some (c, s) \<longrightarrow>
            (\<exists>n. (\<forall>i<n. transient (ioctl_ret os i)) \<and>
                 \<not> transient (ioctl_ret os n) \<and>
                 (0 \<le> rv (ioctl_ret os n) \<or> not_connected (ioctl_ret os n) \<or>
                  other_failure (ioctl_ret os n)) \<and>
                 (c = 0) = (0 \<le> rv (ioctl_ret os n)) \<and>
                 filter is_ioctl (calls s) =
                   replicate (Suc n)
                     (Ioctl (rv (open_ret os (argv ! 1) O_RDONLY)) DM_MPATH_PROBE_PATHS)))"
proof (cases "\<forall>i. transient (ioctl_ret os i)")
  case True
  with main_never [OF assms True] show ?thesis by simp
next
  case False
  define n where "n = (LEAST i. \<not> transient (ioctl_ret os i))"
  let ?fd = "rv (open_ret os (argv ! 1) O_RDONLY)"
  let ?req = "Ioctl ?fd DM_MPATH_PROBE_PATHS"
  from False have last: "\<not> transient (ioctl_ret os n)"
    unfolding n_def by (metis (mono_tags, lifting) LeastI)
  have before: "\<forall>i<n. transient (ioctl_ret os i)"
    unfolding n_def using not_less_Least by blast
  have kinds: "0 \<le> rv (ioctl_ret os n) \<or> not_connected (ioctl_ret os n) \<or>
               other_failure (ioctl_ret os n)"
    using result_cases [of "ioctl_ret os n"] last by blast
  have "\<exists>c s. main os argv = Some (c, s) \<and> (c = 0) = (0 \<le> rv (ioctl_ret os n)) \<and>
              filter is_ioctl (calls s) = replicate (Suc n) ?req"
  proof -
    consider (ok) "0 \<le> rv (ioctl_ret os n)" | (nc) "not_connected (ioctl_ret os n)"
      | (other) "other_failure (ioctl_ret os n)"
      using kinds by blast
    then show ?thesis
    proof cases
      case ok
      from main_success [OF assms before ok] obtain s where
        "main os argv = Some (0, s)" "calls s = Open (argv ! 1) O_RDONLY # replicate (Suc n) ?req @ [Close ?fd]"
        by blast
      with ok show ?thesis using requests_only(2) [of "argv ! 1" O_RDONLY "Suc n" ?fd]
        by (intro exI [of _ 0] exI [of _ s]) simp
    next
      case nc
      from main_notconn [OF assms before nc] obtain s where
        "main os argv = Some (1, s)" "calls s = Open (argv ! 1) O_RDONLY # replicate (Suc n) ?req"
        by blast
      moreover from nc have "\<not> 0 \<le> rv (ioctl_ret os n)" by (simp add: not_connected_def)
      ultimately show ?thesis using requests_only(1) [of "argv ! 1" O_RDONLY "Suc n" ?fd]
        by (intro exI [of _ 1] exI [of _ s]) simp
    next
      case other
      from main_other [OF assms before other] obtain s where
        "main os argv = Some (1, s)" "calls s = Open (argv ! 1) O_RDONLY # replicate (Suc n) ?req"
        by blast
      moreover from other have "\<not> 0 \<le> rv (ioctl_ret os n)" by (simp add: other_failure_def)
      ultimately show ?thesis using requests_only(1) [of "argv ! 1" O_RDONLY "Suc n" ?fd]
        by (intro exI [of _ 1] exI [of _ s]) simp
    qed
  qed
  then obtain c s where run: "main os argv = Some (c, s)" "(c = 0) = (0 \<le> rv (ioctl_ret os n))"
    "filter is_ioctl (calls s) = replicate (Suc n) ?req"
    by blast
  have "\<exists>n. (\<forall>i<n. transient (ioctl_ret os i)) \<and> \<not> transient (ioctl_ret os n) \<and>
            (0 \<le> rv (ioctl_ret os n) \<or> not_connected (ioctl_ret os n) \<or>
             other_failure (ioctl_ret os n)) \<and>
            (c = 0) = (0 \<le> rv (ioctl_ret os n)) \<and>
            filter is_ioctl (calls s) = replicate (Suc n) ?req"
    using before last kinds run(2,3) by blast
  with run(1) False show ?thesis by simp
qed

theorem retry_exactly_on_transient_witness:
  "length argv_dm = 2 \<and> 0 \<le> rv (open_ret os_retry (argv_dm ! 1) O_RDONLY) \<and>
   main os_retry argv_dm \<noteq> None \<and> main os_busy argv_dm = None \<and>
   (\<exists>s n. main os_retry argv_dm = Some (0, s) \<and>
          \<not> transient (ioctl_ret os_retry n) \<and>
          filter is_ioctl (calls s) = replicate (Suc n) (Ioctl 3 DM_MPATH_PROBE_PATHS))"
proof -
  have hyps: "length argv_dm = 2" "0 \<le> rv (open_ret os_retry (argv_dm ! 1) O_RDONLY)"
    by simp_all
  have ends: "\<not> (\<forall>i. transient (ioctl_ret os_retry i))"
    using concrete_results(3) by blast
  note inst = retry_exactly_on_transient [OF hyps]
  from inst ends have "main os_retry argv_dm \<noteq> None" by simp
  then obtain c s where run: "main os_retry argv_dm = Some (c, s)" by auto
  with inst obtain n where n: "\<forall>i<n. transient (ioctl_ret os_retry i)"
    "\<not> transient (ioctl_ret os_retry n)" "(c = 0) = (0 \<le> rv (ioctl_ret os_retry n))"
    "filter is_ioctl (calls s) = replicate (Suc n) (Ioctl 3 DM_MPATH_PROBE_PATHS)"
    by auto
  have "n = 2"
  proof (rule ccontr)
    assume "n \<noteq> 2"
    then consider "n = 0" | "n = Suc 0" | "2 < n" by linarith
    then show False
      using n(1,2) concrete_results(1-3) by cases auto
  qed
  with n(3) have "c = 0" by simp
  moreover have "main os_busy argv_dm = None"
    using retry_exactly_on_transient [of argv_dm os_busy] by simp
  ultimately show ?thesis
    using run n hyps \<open>main os_retry argv_dm \<noteq> None\<close> by blast
qed

text \<open>
  C3: for every \<open>N\<close>, if the probe request fails with the interrupted or the try-again
  status \<open>N\<close> times and then succeeds, the program issues exactly \<open>N + 1\<close> probe requests,
  terminates with exit status 0, and its whole standard output is the line \<open>probing\<close>,
  once: \<open>no usable paths\<close> is not printed.
\<close>

theorem transient_then_success:
  assumes "length argv = 2"
    and "0 \<le> rv (open_ret os (argv ! 1) O_RDONLY)"
    and "\<forall>i<N. transient (ioctl_ret os i)"
    and "0 \<le> rv (ioctl_ret os N)"
  shows "\<exists>s. main os argv = Some (0, s) \<and>
             length (filter is_ioctl (calls s)) = N + 1 \<and>
             filter is_ioctl (calls s) =
               replicate (N + 1) (Ioctl (rv (open_ret os (argv ! 1) O_RDONLY)) DM_MPATH_PROBE_PATHS) \<and>
             stdout s = probing_line \<and> stderr s = []"
proof -
  let ?fd = "rv (open_ret os (argv ! 1) O_RDONLY)"
  from main_success [OF assms] obtain s where s: "main os argv = Some (0, s)"
    "stdout s = probing_line" "stderr s = []"
    "calls s = Open (argv ! 1) O_RDONLY # replicate (Suc N) (Ioctl ?fd DM_MPATH_PROBE_PATHS) @ [Close ?fd]"
    by blast
  from s(4) have "filter is_ioctl (calls s) = replicate (N + 1) (Ioctl ?fd DM_MPATH_PROBE_PATHS)"
    using requests_only(2) [of "argv ! 1" O_RDONLY "Suc N" ?fd] by simp
  with s show ?thesis by (intro exI [of _ s]) simp
qed

theorem transient_then_success_witness:
  "length argv_dm = 2 \<and> 0 \<le> rv (open_ret os_retry (argv_dm ! 1) O_RDONLY) \<and>
   transient (ioctl_ret os_retry 0) \<and> transient (ioctl_ret os_retry 1) \<and>
   0 \<le> rv (ioctl_ret os_retry 2) \<and>
   (\<exists>s. main os_retry argv_dm = Some (0, s) \<and>
        length (filter is_ioctl (calls s)) = 3 \<and>
        stdout s = probing_line \<and> stderr s = [])"
  using transient_then_success [of argv_dm os_retry 2] by (auto simp: below_two)

text \<open>
  C4: if the first probe result that is not transient is the not-connected status, the
  standard output is \<open>probing\<close> followed by \<open>no usable paths\<close> and the exit status is 1;
  if it is a success, the standard output is the line \<open>probing\<close> and nothing else.
\<close>

theorem notconn_output:
  assumes "length argv = 2"
    and "0 \<le> rv (open_ret os (argv ! 1) O_RDONLY)"
    and "\<forall>i<n. transient (ioctl_ret os i)"
  shows "(not_connected (ioctl_ret os n) \<longrightarrow>
            (\<exists>s. main os argv = Some (1, s) \<and> stdout s = probing_line @ no_paths_line)) \<and>
         (0 \<le> rv (ioctl_ret os n) \<longrightarrow>
            (\<exists>s. main os argv = Some (0, s) \<and> stdout s = probing_line))"
proof (intro conjI impI)
  assume "not_connected (ioctl_ret os n)"
  from main_notconn [OF assms this]
  show "\<exists>s. main os argv = Some (1, s) \<and> stdout s = probing_line @ no_paths_line"
    by blast
next
  assume "0 \<le> rv (ioctl_ret os n)"
  from main_success [OF assms this]
  show "\<exists>s. main os argv = Some (0, s) \<and> stdout s = probing_line"
    by blast
qed

theorem notconn_output_witness:
  "length argv_dm = 2 \<and> 0 \<le> rv (open_ret os_notconn (argv_dm ! 1) O_RDONLY) \<and>
   not_connected (ioctl_ret os_notconn 0) \<and>
   (\<exists>s. main os_notconn argv_dm = Some (1, s) \<and>
        stdout s = ''probing'' @ newline @ ''no usable paths'' @ newline) \<and>
   0 \<le> rv (open_ret os_usable (argv_dm ! 1) O_RDONLY) \<and>
   0 \<le> rv (ioctl_ret os_usable 0) \<and>
   (\<exists>s. main os_usable argv_dm = Some (0, s) \<and> stdout s = ''probing'' @ newline)"
  using notconn_output [of argv_dm os_notconn 0] notconn_output [of argv_dm os_usable 0]
  by (simp add: probing_line_def no_paths_line_def)

text \<open>
  C5: if the first probe result that is not transient is a failure with a status other
  than not-connected, interrupted and try-again, the program exits with status 1, writes
  \<open>ioctl failed:\<close> and the error text of that status to the error stream, prints nothing
  but \<open>probing\<close> on standard output, and issues no \<open>close\<close>.
\<close>

theorem other_failure_exit:
  assumes "length argv = 2"
    and "0 \<le> rv (open_ret os (argv ! 1) O_RDONLY)"
    and "\<forall>i<n. transient (ioctl_ret os i)"
    and "other_failure (ioctl_ret os n)"
  shows "\<exists>s. main os argv = Some (1, s) \<and>
             stderr s = ''ioctl failed: '' @ strerror os (er (ioctl_ret os n)) @ newline \<and>
             stdout s = probing_line \<and>
             \<not> list_ex is_close (calls s)"
proof -
  let ?fd = "rv (open_ret os (argv ! 1) O_RDONLY)"
  from main_other [OF assms] obtain s where s: "main os argv = Some (1, s)"
    "stdout s = probing_line"
    "stderr s = ioctl_failed_line (strerror os (er (ioctl_ret os n)))"
    "calls s = Open (argv ! 1) O_RDONLY # replicate (Suc n) (Ioctl ?fd DM_MPATH_PROBE_PATHS)"
    by blast
  from s(4) have "\<not> list_ex is_close (calls s)"
    using no_close_in_requests [of "argv ! 1" O_RDONLY "Suc n"] by simp
  with s show ?thesis by (intro exI [of _ s]) (simp add: ioctl_failed_line_def)
qed

theorem other_failure_exit_witness:
  "length argv_dm = 2 \<and> 0 \<le> rv (open_ret os_eacces (argv_dm ! 1) O_RDONLY) \<and>
   other_failure (ioctl_ret os_eacces 0) \<and>
   (\<exists>s. main os_eacces argv_dm = Some (1, s) \<and>
        stderr s = ''ioctl failed: Permission denied'' @ newline \<and>
        stdout s = probing_line \<and>
        \<not> list_ex is_close (calls s))"
  using other_failure_exit [of argv_dm os_eacces 0]
  by (simp add: strerror_glibc_def)

text \<open>
  C6: for every command line whose length is not 2 (the program name and one positional
  argument), the process exits with status 1 and writes the usage message, built from
  \<open>argv[0]\<close>, to the error stream; it issues no system call, so the device is never
  opened. With a non-empty command line the message holds the program name.
\<close>

theorem usage_error:
  assumes "length argv \<noteq> 2"
  shows "\<exists>s. main os argv = Some (1, s) \<and>
             stderr s = ''Usage: '' @ fmt_s (argv_at argv 0) @ '' <dm-path>'' @ newline \<and>
             (argv \<noteq> [] \<longrightarrow> stderr s = ''Usage: '' @ hd argv @ '' <dm-path>'' @ newline) \<and>
             stdout s = [] \<and> calls s = [] \<and> \<not> list_ex is_open (calls s)"
proof -
  have "argv \<noteq> [] \<Longrightarrow> fmt_s (argv_at argv 0) = hd argv"
    by (cases argv) (simp_all add: fmt_s_def argv_at_def)
  then show ?thesis
    using main_usage [OF assms, of os]
    by (auto simp: usage_line_def proc_start_def)
qed

theorem usage_error_witness:
  "length [''probe''] \<noteq> 2 \<and> [''probe''] \<noteq> [] \<and>
   (\<exists>s. main os_usable [''probe''] = Some (1, s) \<and>
        stderr s = ''Usage: probe <dm-path>'' @ newline \<and>
        stdout s = [] \<and> calls s = [])"
  using usage_error [of "[''probe'']" os_usable] by auto

text \<open>
  C7: for every invocation with one positional argument whose \<open>open\<close> fails, the process
  exits with status 1, writes \<open>open of <path> failed: <error text>\<close> to the error stream
  and prints nothing on standard output; \<open>open\<close> is its only system call, so the probe
  request is never issued.
\<close>

theorem open_failure:
  assumes "length argv = 2"
    and "rv (open_ret os (argv ! 1) O_RDONLY) < 0"
  shows "\<exists>s. main os argv = Some (1, s) \<and>
             stderr s = ''open of '' @ argv ! 1 @ '' failed: '' @
                        strerror os (er (open_ret os (argv ! 1) O_RDONLY)) @ newline \<and>
             stdout s = [] \<and>
             calls s = [Open (argv ! 1) O_RDONLY] \<and>
             \<not> list_ex is_ioctl (calls s)"
  using main_open_failed [OF assms] assms(2)
  by (simp add: open_failed_line_def proc_start_def)

theorem open_failure_witness:
  "length argv_dm = 2 \<and> rv (open_ret os_enoent (argv_dm ! 1) O_RDONLY) < 0 \<and>
   (\<exists>s. main os_enoent argv_dm = Some (1, s) \<and>
        stderr s = ''open of /dev/dm-0 failed: No such file or directory'' @ newline \<and>
        stdout s = [] \<and>
        calls s = [Open ''/dev/dm-0'' O_RDONLY])"
  using open_failure [of argv_dm os_enoent] by (auto simp: strerror_glibc_def)

text \<open>
  C8: two invocations, each against a device that can be opened and whose probe request
  always succeeds, both end with exit status 0 and with the same output: \<open>probing\<close> on
  standard output, nothing on the error stream. (The same invocation against the same
  answers of the operating system has the same result, \<open>main\<close> being a function of them.)
\<close>

theorem usable_runs_agree:
  assumes "length argv1 = 2" and "length argv2 = 2"
    and "0 \<le> rv (open_ret os1 (argv1 ! 1) O_RDONLY)"
    and "0 \<le> rv (open_ret os2 (argv2 ! 1) O_RDONLY)"
    and "\<forall>k. 0 \<le> rv (ioctl_ret os1 k)"
    and "\<forall>k. 0 \<le> rv (ioctl_ret os2 k)"
  shows "\<exists>s1 s2. main os1 argv1 = Some (0, s1) \<and> main os2 argv2 = Some (0, s2) \<and>
                 stdout s1 = stdout s2 \<and> stderr s1 = stderr s2 \<and>
                 stdout s1 = probing_line \<and> stderr s1 = []"
proof -
  from assms(5) have ok1: "0 \<le> rv (ioctl_ret os1 0)" by blast
  from assms(6) have ok2: "0 \<le> rv (ioctl_ret os2 0)" by blast
  have none: "\<forall>i<0. transient (ioctl_ret os i)" for os :: os_env by simp
  from main_success [OF assms(1,3) none ok1] obtain s1 where
    s1: "main os1 argv1 = Some (0, s1)" "stdout s1 = probing_line" "stderr s1 = []"
    by blast
  from main_success [OF assms(2,4) none ok2] obtain s2 where
    s2: "main os2 argv2 = Some (0, s2)" "stdout s2 = probing_line" "stderr s2 = []"
    by blast
  from s1 s2 show ?thesis by (intro exI [of _ s1] exI [of _ s2]) simp
qed

theorem usable_runs_agree_witness:
  "length argv_dm = 2 \<and>
   0 \<le> rv (open_ret os_usable (argv_dm ! 1) O_RDONLY) \<and>
   0 \<le> rv (open_ret os_usable_alt (argv_dm ! 1) O_RDONLY) \<and>
   (\<forall>k. 0 \<le> rv (ioctl_ret os_usable k)) \<and> (\<forall>k. 0 \<le> rv (ioctl_ret os_usable_alt k)) \<and>
   (\<exists>s1 s2. main os_usable argv_dm = Some (0, s1) \<and> main os_usable_alt argv_dm = Some (0, s2) \<and>
            stdout s1 = stdout s2 \<and> stderr s1 = stderr s2)"
  using usable_runs_agree [of argv_dm argv_dm os_usable os_usable_alt] by auto

text \<open>
  C9: the loop ends on any return value of the request that is not negative, zero or not:
  when the first result that is not transient has return value \<open>v \<ge> 0\<close>, the requests
  stop there, the next and last system call is \<open>close\<close> on the descriptor, and the exit
  status is 0.
\<close>

theorem nonneg_is_success:
  assumes "length argv = 2"
    and "0 \<le> rv (open_ret os (argv ! 1) O_RDONLY)"
    and "\<forall>i<n. transient (ioctl_ret os i)"
    and "rv (ioctl_ret os n) = v"
    and "0 \<le> v"
  shows "\<exists>s. main os argv = Some (0, s) \<and>
             calls s = Open (argv ! 1) O_RDONLY #
                       replicate (Suc n) (Ioctl (rv (open_ret os (argv ! 1) O_RDONLY)) DM_MPATH_PROBE_PATHS) @
                       [Close (rv (open_ret os (argv ! 1) O_RDONLY))]"
proof -
  from assms(4,5) have "0 \<le> rv (ioctl_ret os n)" by simp
  from main_success [OF assms(1-3) this] show ?thesis by blast
qed

theorem nonneg_is_success_witness:
  "length argv_dm = 2 \<and> 0 \<le> rv (open_ret os_usable_alt (argv_dm ! 1) O_RDONLY) \<and>
   rv (ioctl_ret os_usable_alt 0) = 7 \<and> (0::int) \<le> 7 \<and>
   (\<exists>s. main os_usable_alt argv_dm = Some (0, s) \<and>
        calls s = [Open ''/dev/dm-0'' O_RDONLY, Ioctl 4 DM_MPATH_PROBE_PATHS, Close 4])"
  using nonneg_is_success [of argv_dm os_usable_alt 0 7] by simp

text \<open>
  C10: on the success path the result of \<open>close\<close> is ignored: whatever \<open>close\<close> returns and
  whatever \<open>errno\<close> it leaves, the process has called \<open>close\<close> last, exits with status 0
  and has written only \<open>probing\<close>.
\<close>

theorem close_result_ignored:
  assumes "length argv = 2"
    and "0 \<le> rv (open_ret os (argv ! 1) O_RDONLY)"
    and "\<forall>i<n. transient (ioctl_ret os i)"
    and "0 \<le> rv (ioctl_ret os n)"
  shows "\<exists>s. main (os\<lparr>close_ret := cr\<rparr>) argv = Some (0, s) \<and>
             last (calls s) = Close (rv (open_ret os (argv ! 1) O_RDONLY)) \<and>
             stdout s = probing_line \<and> stderr s = []"
proof -
  let ?os = "os\<lparr>close_ret := cr\<rparr>"
  have "0 \<le> rv (open_ret ?os (argv ! 1) O_RDONLY)" "\<forall>i<n. transient (ioctl_ret ?os i)"
    "0 \<le> rv (ioctl_ret ?os n)"
    using assms(2-4) by simp_all
  from main_success [OF assms(1) this] obtain s where s: "main ?os argv = Some (0, s)"
    "stdout s = probing_line" "stderr s = []"
    "calls s = Open (argv ! 1) O_RDONLY #
               replicate (Suc n) (Ioctl (rv (open_ret os (argv ! 1) O_RDONLY)) DM_MPATH_PROBE_PATHS) @
               [Close (rv (open_ret os (argv ! 1) O_RDONLY))]"
    by auto
  from s(4) have "last (calls s) = Close (rv (open_ret os (argv ! 1) O_RDONLY))"
    by simp
  with s show ?thesis by (intro exI [of _ s]) simp
qed

theorem close_result_ignored_witness:
  "length argv_dm = 2 \<and> 0 \<le> rv (open_ret os_usable (argv_dm ! 1) O_RDONLY) \<and>
   0 \<le> rv (ioctl_ret os_usable 0) \<and>
   (\<exists>s. main (os_usable\<lparr>close_ret := \<lparr>rv = - 1, er = 5\<rparr>\<rparr>) argv_dm = Some (0, s) \<and>
        last (calls s) = Close 3 \<and> stdout s = probing_line \<and> stderr s = [])"
  using close_result_ignored [of argv_dm os_usable 0 "\<lparr>rv = - 1, er = 5\<rparr>"] by simp

end
